theory Spec2Isabelle
  imports Main
begin

section \<open>Values exchanged with the backend\<close>

text \<open>
  The scalar JavaScript values that occur as a log entry's \<open>event_time\<close> and as fields of
  the request bodies. Numbers are restricted to integers. \<open>truthy\<close> is JavaScript's
  conversion to a boolean, which the incremental poller applies to its high-water mark.
\<close>

datatype jsval = JNull | JBool bool | JNum int | JStr string

fun truthy :: "jsval \<Rightarrow> bool" where
  "truthy JNull = False"
| "truthy (JBool b) = b"
| "truthy (JNum n) = (n \<noteq> 0)"
| "truthy (JStr s) = (s \<noteq> [])"

text \<open>
  The payload types of section 3 of the specification. \<open>event_type\<close> is optional:
  \<open>None\<close> is a missing property (\<open>undefined\<close>).
\<close>

record LogEntry =
  parent :: string
  event_time :: jsval
  event_data :: string
  event_type :: "string option"

record Action =
  action_name :: string
  linkedEvents :: "string list"

record Event =
  event_name :: string
  key :: string

text \<open>
  How a promise settles: rejected with an error (its \<open>message\<close>), or fulfilled with a value.
\<close>

datatype 'a settled = Rejected string | Fulfilled 'a

text \<open>
  A \<open>fetch\<close> response as far as the handlers read it: the status code, and the body as
  \<open>response.text()\<close> returns it. \<open>response.ok\<close> is true for the statuses 200 to 299.
\<close>

record response =
  status :: nat
  text_body :: string

definition ok :: "response \<Rightarrow> bool" where
  "ok r = (200 \<le> status r \<and> status r \<le> 299)"

text \<open>
  What \<open>fetch(url).then(r => r.json())\<close> is fulfilled with: the body parsed as JSON is either
  an array of items or some other JSON value. A network failure and a body that is not
  JSON both reject the promise.
\<close>

datatype 'a json_body = NonArray | Items "'a list"

text \<open>What jQuery passes to the \<open>error\<close> callback of \<open>$.ajax\<close>.\<close>

record jqXHR =
  xhr_status :: nat
  responseText :: string

record ajax_failure =
  xhr :: jqXHR
  textStatus :: string
  errorThrown :: string


section \<open>The page\<close>

text \<open>
  Everything the scripts emit is kept in one trace, in the order of emission: the HTTP
  requests issued, the alerts appended to \<open>#alerts\<close> and the lines written to the console.
\<close>

record request =
  req_method :: string
  req_url :: string
  req_query :: "(string \<times> jsval) list"
  req_body :: "(string \<times> jsval) list option"

datatype console_arg = ArgText string | ArgXhr jqXHR

datatype effect =
    Sent request
  | Shown string string
  | Logged string console_arg

text \<open>
  A log entry as the full-refresh variant builds it, element by element, with the fields
  of the log set as the texts of its parts. The time is shown as
  \<open>new Date(t).toLocaleString()\<close>, which depends on the viewer's locale and is kept symbolic.
  \<open>elem_level\<close> is a level badge (CSS class and label), which this variant never shows.
\<close>

datatype time_text = LocaleString jsval

record log_elem =
  elem_source :: string
  elem_time :: time_text
  elem_level :: "(string \<times> string) option"
  elem_message :: string

record action_row =
  row_action :: string
  row_linked :: string
  row_delete :: string

record event_row =
  row_event :: string
  row_key :: string
  row_remove :: string

text \<open>
  The incremental variant inserts markup, which the browser parses. A node of the parsed
  document is a text or an element with its tag, its classes and its children.
\<close>

datatype node = Text string | Element string "string list" "node list"

text \<open>
  What the scripts take from the browser and from jQuery:
  \<^item> \<open>toLocaleString v\<close> is \<open>new Date(v).toLocaleString()\<close>;
  \<^item> \<open>inherited k\<close> is the text of \<open>`${o[k]}`\<close> for an object literal \<open>o\<close> without own
    property \<open>k\<close>, when \<open>Object.prototype\<close> provides one (\<open>constructor\<close>, \<open>toString\<close>,
    \<open>__proto__\<close>, ...), and \<open>None\<close> for every other key;
  \<^item> \<open>parseHTML h\<close> is the list of nodes that jQuery builds from the markup \<open>h\<close> before
    inserting them. The nodes are inert: markup that runs script is not modelled.
\<close>

record platform =
  toLocaleString :: "jsval \<Rightarrow> string"
  inherited :: "string \<Rightarrow> string option"
  parseHTML :: "string \<Rightarrow> node list"

datatype modal = Modal string

text \<open>
  The state of the page: the two script variables \<open>currentModal\<close> and \<open>lastLogTimestamp\<close>,
  the parts of the document that the scripts write, and the trace. \<open>logContainer\<close> holds the
  children of \<open>#logContainer\<close>: entries of type \<open>log_elem\<close> under the full-refresh variant,
  parsed nodes under the incremental one. \<open>entriesBefore\<close> is the number of elements of class
  \<open>log-entry\<close> that the document holds ahead of those children, in document order; the
  markup of the page is not part of the repository. The container and its ancestors are
  taken not to carry that class.
\<close>

record 'e page =
  currentModal :: "modal option"
  modalTitle :: string
  modalBody :: string
  modalShown :: bool
  actionsTable :: "action_row list"
  eventsTable :: "event_row list"
  logContainer :: "'e list"
  entriesBefore :: nat
  lastLogTimestamp :: jsval
  trace :: "effect list"

text \<open>
  The page when the scripts start: no modal tracked, no high-water mark
  (\<open>let currentModal = null\<close>, \<open>let lastLogTimestamp = null\<close>), nothing rendered, nothing emitted.
\<close>

definition page_load :: "'e page" where
  "page_load = \<lparr>currentModal = None, modalTitle = [], modalBody = [], modalShown = False,
     actionsTable = [], eventsTable = [], logContainer = [], entriesBefore = 0,
     lastLogTimestamp = JNull, trace = []\<rparr>"

definition emit :: "effect \<Rightarrow> 'e page \<Rightarrow> 'e page" where
  "emit e s = s\<lparr>trace := trace s @ [e]\<rparr>"

fun sent :: "effect \<Rightarrow> request list" where
  "sent (Sent r) = [r]"
| "sent (Shown t m) = []"
| "sent (Logged m a) = []"

fun shown :: "effect \<Rightarrow> (string \<times> string) list" where
  "shown (Sent r) = []"
| "shown (Shown t m) = [(t, m)]"
| "shown (Logged m a) = []"

fun logged :: "effect \<Rightarrow> (string \<times> console_arg) list" where
  "logged (Sent r) = []"
| "logged (Shown t m) = []"
| "logged (Logged m a) = [(m, a)]"

definition requests :: "'e page \<Rightarrow> request list" where
  "requests s = concat (map sent (trace s))"

definition alerts :: "'e page \<Rightarrow> (string \<times> string) list" where
  "alerts s = concat (map shown (trace s))"

definition console :: "'e page \<Rightarrow> (string \<times> console_arg) list" where
  "console s = concat (map logged (trace s))"


section \<open>dashboard.js: modal, alerts, registry tables\<close>

definition showModal :: "string \<Rightarrow> string \<Rightarrow> 'e page \<Rightarrow> 'e page" where
  "showModal title content s =
     s\<lparr>modalTitle := title, modalBody := content,
       currentModal := Some (Modal ''#componentModal''), modalShown := True\<rparr>"

fun hide :: "modal \<Rightarrow> 'e page \<Rightarrow> 'e page" where
  "hide (Modal sel) s = s\<lparr>modalShown := False\<rparr>"

definition closeModal :: "'e page \<Rightarrow> 'e page" where
  "closeModal s = (case currentModal s of None \<Rightarrow> s | Some m \<Rightarrow> hide m s)"

text \<open>
  \<open>showAlert\<close> interpolates its two arguments into a template, unescaped, and appends the
  result to \<open>#alerts\<close>. \<open>Shown type message\<close> records that call: it stands for whatever the
  browser builds from the markup \<open>alert_html type message\<close>. The message is markup, not text:
  what the viewer reads is the rendering of it.
\<close>

definition nl :: string where
  "nl = [CHR 0x0A]"

definition sp :: "nat \<Rightarrow> string" where
  "sp n = replicate n (CHR '' '')"

definition alert_html :: "string \<Rightarrow> string \<Rightarrow> string" where
  \<open>alert_html type message =
     nl @ sp 8 @ ''<div class="alert alert-'' @ type @
       '' alert-dismissible fade show" role="alert">'' @
     nl @ sp 12 @ message @
     nl @ sp 12 @ ''<button type="button" class="btn-close" data-bs-dismiss="alert"></button>'' @
     nl @ sp 8 @ ''</div>'' @
     nl @ sp 4\<close>

definition showAlert :: "string \<Rightarrow> string \<Rightarrow> 'e page \<Rightarrow> 'e page" where
  "showAlert type message s = emit (Shown type message) s"

definition alerts_html :: "'e page \<Rightarrow> string list" where
  "alerts_html s = map (\<lambda>(type, message). alert_html type message) (alerts s)"

definition fetch_get :: "string \<Rightarrow> 'e page \<Rightarrow> 'e page" where
  "fetch_get url s =
     emit (Sent \<lparr>req_method = ''GET'', req_url = url, req_query = [], req_body = None\<rparr>) s"

definition fetch_post :: "string \<Rightarrow> (string \<times> jsval) list \<Rightarrow> 'e page \<Rightarrow> 'e page" where
  "fetch_post url body s =
     emit (Sent \<lparr>req_method = ''POST'', req_url = url, req_query = [], req_body = Some body\<rparr>) s"

text \<open>\<open>Array.prototype.join\<close> on an array of strings.\<close>

fun join :: "string \<Rightarrow> string list \<Rightarrow> string" where
  "join sep [] = []"
| "join sep [x] = x"
| "join sep (x # y # ys) = x @ sep @ join sep (y # ys)"

definition action_tr :: "Action \<Rightarrow> action_row" where
  "action_tr action =
     \<lparr>row_action = action_name action,
      row_linked = (let l = join '', '' (linkedEvents action) in if l \<noteq> [] then l else ''None''),
      row_delete = ''deleteAction('' @ [CHR 0x27] @ action_name action @ [CHR 0x27] @ '')''\<rparr>"

definition event_tr :: "Event \<Rightarrow> event_row" where
  "event_tr event =
     \<lparr>row_event = event_name event,
      row_key = key event,
      row_remove = ''deleteEvent('' @ [CHR 0x27] @ event_name event @ [CHR 0x27] @ '')''\<rparr>"

text \<open>
  The table renderers empty the table body first and then call \<open>forEach\<close> on their argument,
  which throws a TypeError when the argument is not an array. The result says whether the
  call returned or threw; the page is the one left behind in either case.
\<close>

datatype completion = Returned | Threw

fun updateActionsTable :: "Action json_body \<Rightarrow> 'e page \<Rightarrow> completion \<times> 'e page" where
  "updateActionsTable NonArray s = (Threw, s\<lparr>actionsTable := []\<rparr>)"
| "updateActionsTable (Items actions) s =
     (Returned,
      foldl (\<lambda>t action. t\<lparr>actionsTable := actionsTable t @ [action_tr action]\<rparr>)
        (s\<lparr>actionsTable := []\<rparr>) actions)"

fun updateEventsTable :: "Event json_body \<Rightarrow> 'e page \<Rightarrow> completion \<times> 'e page" where
  "updateEventsTable NonArray s = (Threw, s\<lparr>eventsTable := []\<rparr>)"
| "updateEventsTable (Items events) s =
     (Returned,
      foldl (\<lambda>t event. t\<lparr>eventsTable := eventsTable t @ [event_tr event]\<rparr>)
        (s\<lparr>eventsTable := []\<rparr>) events)"

text \<open>
  \<open>refreshComponents\<close> is an async function. Up to its \<open>await\<close> it issues the two fetches
  (\<open>refreshComponents\<close>); the rest runs when \<open>Promise.all\<close> has settled
  (\<open>refreshComponents_settled\<close>): rejected as soon as one of the two promises is, fulfilled
  with both values otherwise. Every exception of the \<open>try\<close> block ends in the same alert.
\<close>

definition refreshComponents :: "'e page \<Rightarrow> 'e page" where
  "refreshComponents s = fetch_get ''/api/events'' (fetch_get ''/api/actions'' s)"

fun refreshComponents_settled ::
  "Action json_body settled \<Rightarrow> Event json_body settled \<Rightarrow> 'e page \<Rightarrow> 'e page" where
  "refreshComponents_settled (Fulfilled actions) (Fulfilled events) s =
     (case updateActionsTable actions s of
        (Threw, s1) \<Rightarrow> showAlert ''danger'' ''Error refreshing components'' s1
      | (Returned, s1) \<Rightarrow>
          (case updateEventsTable events s1 of
             (Threw, s2) \<Rightarrow> showAlert ''danger'' ''Error refreshing components'' s2
           | (Returned, s2) \<Rightarrow> s2))"
| "refreshComponents_settled (Rejected e) b s =
     showAlert ''danger'' ''Error refreshing components'' s"
| "refreshComponents_settled a (Rejected e) s =
     showAlert ''danger'' ''Error refreshing components'' s"

text \<open>
  The submit handler of the create-action form, for the name read from \<open>#actionName\<close>:
  first the POST, then, once \<open>fetch\<close> has settled, the alert. On a 2xx response the handler
  starts \<open>refreshComponents\<close> without awaiting it and closes the modal.
\<close>

definition createActionForm_submit :: "string \<Rightarrow> 'e page \<Rightarrow> 'e page" where
  "createActionForm_submit actionName s =
     fetch_post ''/api/action/create'' [(''name'', JStr actionName)] s"

fun createActionForm_settled :: "string \<Rightarrow> response settled \<Rightarrow> 'e page \<Rightarrow> 'e page" where
  "createActionForm_settled actionName (Fulfilled r) s =
     (if ok r then
        closeModal (refreshComponents
          (showAlert ''success'' (''Action '' @ actionName @ '' created successfully!'') s))
      else showAlert ''danger'' (''Error creating action: '' @ text_body r) s)"
| "createActionForm_settled actionName (Rejected message) s =
     showAlert ''danger'' (''Error creating action: '' @ message) s"

text \<open>The submit handler of the exchange settings form, for the values of its three fields.\<close>

definition apiForm_submit :: "string \<Rightarrow> string \<Rightarrow> bool \<Rightarrow> 'e page \<Rightarrow> 'e page" where
  "apiForm_submit apiKey apiSecret testnet s =
     fetch_post ''/api/settings/binance''
       [(''apiKey'', JStr apiKey), (''apiSecret'', JStr apiSecret), (''testnet'', JBool testnet)] s"

fun apiForm_settled :: "response settled \<Rightarrow> 'e page \<Rightarrow> 'e page" where
  "apiForm_settled (Fulfilled r) s =
     (if ok r then showAlert ''success'' ''Binance settings updated successfully!'' s
      else showAlert ''danger'' (''Error updating Binance settings: '' @ text_body r) s)"
| "apiForm_settled (Rejected message) s =
     showAlert ''danger'' (''Error updating Binance settings: '' @ message) s"


section \<open>Log poller, full-refresh variant\<close>

definition ajax :: "string \<Rightarrow> string \<Rightarrow> (string \<times> jsval) list \<Rightarrow> 'e page \<Rightarrow> 'e page" where
  "ajax method url data s =
     emit (Sent \<lparr>req_method = method, req_url = url, req_query = data, req_body = None\<rparr>) s"

definition log_div :: "LogEntry \<Rightarrow> log_elem" where
  "log_div log =
     \<lparr>elem_source = parent log, elem_time = LocaleString (event_time log),
      elem_level = None, elem_message = event_data log\<rparr>"

text \<open>
  Both variants name a function \<open>updateLogs\<close>. The one of this variant, \<open>updateLogs(logs)\<close>,
  is \<open>updateLogs_full\<close> here: it empties the container and appends one entry per log.
\<close>

definition updateLogs_full :: "LogEntry list \<Rightarrow> log_elem page \<Rightarrow> log_elem page" where
  "updateLogs_full logs s =
     foldl (\<lambda>t log. t\<lparr>logContainer := logContainer t @ [log_div log]\<rparr>)
       (s\<lparr>logContainer := []\<rparr>) logs"

definition getLogData :: "'e page \<Rightarrow> 'e page" where
  "getLogData s = ajax ''GET'' ''/logs'' [] s"

definition getLogData_success :: "LogEntry list \<Rightarrow> log_elem page \<Rightarrow> log_elem page" where
  "getLogData_success data s = updateLogs_full (take 20 (rev data)) s"

definition getLogData_error :: "ajax_failure \<Rightarrow> 'e page \<Rightarrow> 'e page" where
  "getLogData_error f s = emit (Logged ''Error fetching logs:'' (ArgXhr (xhr f))) s"





section \<open>Log poller, incremental variant\<close>

definition formatTimestamp :: "platform \<Rightarrow> jsval \<Rightarrow> string" where
  "formatTimestamp P timestamp = toLocaleString P timestamp"

definition levelColors :: "(string \<times> string) list" where
  "levelColors =
     [(''INFO'', ''text-info''), (''WARNING'', ''text-warning''),
      (''ERROR'', ''text-danger''), (''SUCCESS'', ''text-success'')]"

text \<open>
  \<open>levelColors[level]\<close> finds the four own keys and, failing that, what the object inherits;
  \<open>'text-secondary'\<close> is used when neither exists. A missing \<open>event_type\<close> is looked up, and
  printed, as \<open>undefined\<close>.
\<close>

definition formatLogLevel :: "platform \<Rightarrow> string option \<Rightarrow> string" where
  \<open>formatLogLevel P level =
     (let l = (case level of None \<Rightarrow> ''undefined'' | Some x \<Rightarrow> x);
          c = (case map_of levelColors l of
                 Some c \<Rightarrow> c
               | None \<Rightarrow> (case inherited P l of Some t \<Rightarrow> t | None \<Rightarrow> ''text-secondary''))
      in ''<span class="'' @ c @ ''">'' @ l @ ''</span>'')\<close>

text \<open>The markup of one entry: the template of the source with the fields put in unescaped.\<close>

definition createLogEntry :: "platform \<Rightarrow> LogEntry \<Rightarrow> string" where
  \<open>createLogEntry P log =
     nl @ sp 12 @ ''<div class="log-entry">'' @
     nl @ sp 16 @ ''<div class="d-flex justify-content-between">'' @
     nl @ sp 20 @ ''<span class="fw-bold">'' @ parent log @ ''</span>'' @
     nl @ sp 20 @ ''<small class="text-muted">'' @ formatTimestamp P (event_time log) @
       ''</small>'' @
     nl @ sp 16 @ ''</div>'' @
     nl @ sp 16 @ ''<div class="mt-1">'' @
     nl @ sp 20 @ formatLogLevel P (event_type log) @ '' '' @ event_data log @
     nl @ sp 16 @ ''</div>'' @
     nl @ sp 12 @ ''</div>'' @
     nl @ sp 8\<close>

definition maxLogs :: nat where
  "maxLogs = 100"


fun count_entries :: "node list \<Rightarrow> nat" where
  "count_entries [] = 0"
| "count_entries (Text t # ns) = count_entries ns"
| "count_entries (Element tag cs kids # ns) =
     (if ''log-entry'' \<in> set cs then 1 else 0) + count_entries kids + count_entries ns"

text \<open>
  \<open>keep_first n\<close> walks a list of nodes in document order, an element before its children
  and these before its later siblings, and removes every element of class \<open>log-entry\<close>
  after the first \<open>n\<close>, together with what it contains.
\<close>

fun keep_first :: "nat \<Rightarrow> node list \<Rightarrow> node list" where
  "keep_first n [] = []"
| "keep_first n (Text t # ns) = Text t # keep_first n ns"
| "keep_first n (Element tag cs kids # ns) =
     (if ''log-entry'' \<in> set cs then
        (if n = 0 then keep_first 0 ns
         else Element tag cs (keep_first (n - 1) kids) #
              keep_first (n - 1 - count_entries kids) ns)
      else Element tag cs (keep_first n kids) # keep_first (n - count_entries kids) ns)"

text \<open>
  \<open>$('.log-entry:gt(i)').remove()\<close> selects the elements of class \<open>log-entry\<close> of the whole
  document, in document order, and removes those at a position greater than \<open>i\<close>. The
  entries ahead of the container take the first positions, so the container keeps its
  first \<open>i + 1 - entriesBefore\<close> entries.
\<close>

definition remove_gt :: "nat \<Rightarrow> node page \<Rightarrow> node page" where
  "remove_gt i s =
     s\<lparr>logContainer := keep_first (Suc i - entriesBefore s) (logContainer s)\<rparr>"

definition updateLogs :: "'e page \<Rightarrow> 'e page" where
  "updateLogs s =
     ajax ''GET'' ''/logs''
       (if truthy (lastLogTimestamp s) then [(''since'', lastLogTimestamp s)] else []) s"

text \<open>
  The success callback. \<open>logContainer.prepend(markup)\<close> puts the nodes parsed from the markup
  in front of the children of the container.
\<close>

definition updateLogs_success :: "platform \<Rightarrow> LogEntry list \<Rightarrow> node page \<Rightarrow> node page" where
  "updateLogs_success P logs s =
     (if length logs > 0 then
        remove_gt (maxLogs - 1)
          (foldl (\<lambda>t log. t\<lparr>logContainer := parseHTML P (createLogEntry P log) @ logContainer t\<rparr>)
             (s\<lparr>lastLogTimestamp := event_time (logs ! (length logs - 1))\<rparr>) logs)
      else s)"

definition updateLogs_error :: "ajax_failure \<Rightarrow> 'e page \<Rightarrow> 'e page" where
  "updateLogs_error f s = emit (Logged ''Error fetching logs:'' (ArgText (errorThrown f))) s"

definition clearLogs :: "'e page \<Rightarrow> 'e page" where
  "clearLogs s = ajax ''POST'' ''/logs/clear'' [] s"

definition clearLogs_success :: "'e page \<Rightarrow> 'e page" where
  "clearLogs_success s =
     showAlert ''success'' ''Logs cleared successfully''
       (s\<lparr>logContainer := [], lastLogTimestamp := JNull\<rparr>)"

definition clearLogs_error :: "ajax_failure \<Rightarrow> 'e page \<Rightarrow> 'e page" where
  "clearLogs_error f s = showAlert ''danger'' (''Error clearing logs: '' @ errorThrown f) s"

text \<open>
  What can happen on a page that runs this variant. \<open>Outside n\<close> is any change made to the
  rest of the document, after which \<open>n\<close> elements of class \<open>log-entry\<close> precede the children
  of the container.
\<close>

datatype incr_event =
    Tick
  | Success "LogEntry list"
  | Failure ajax_failure
  | Clear
  | ClearSuccess
  | ClearFailure ajax_failure
  | Outside nat

fun incr_step :: "platform \<Rightarrow> incr_event \<Rightarrow> node page \<Rightarrow> node page" where
  "incr_step P Tick s = updateLogs s"
| "incr_step P (Success logs) s = updateLogs_success P logs s"
| "incr_step P (Failure f) s = updateLogs_error f s"
| "incr_step P Clear s = clearLogs s"
| "incr_step P ClearSuccess s = clearLogs_success s"
| "incr_step P (ClearFailure f) s = clearLogs_error f s"
| "incr_step P (Outside n) s = s\<lparr>entriesBefore := n\<rparr>"

fun incr_run :: "platform \<Rightarrow> incr_event list \<Rightarrow> node page \<Rightarrow> node page" where
  "incr_run P [] s = s"
| "incr_run P (e # es) s = incr_run P es (incr_step P e s)"

text \<open>The events that leave the high-water mark alone.\<close>

fun keeps_mark :: "incr_event \<Rightarrow> bool" where
  "keeps_mark (Success logs) = (logs = [])"
| "keeps_mark ClearSuccess = False"
| "keeps_mark e = True"

text \<open>
  A platform for the worked examples below: it turns any markup into one entry element
  around the markup as text. It stands for no browser; the theorems hold for every
  platform.
\<close>

definition example_platform :: platform where
  "example_platform =
     \<lparr>toLocaleString = (\<lambda>v. ''1/1/2024, 12:00:00 AM''), inherited = (\<lambda>k. None),
      parseHTML = (\<lambda>h. [Element ''div'' [''log-entry''] [Text h]])\<rparr>"


section \<open>Auxiliary facts\<close>

lemma emit_frame:
  "trace (emit e s) = trace s @ [e]"
  "logContainer (emit e s) = logContainer s"
  "entriesBefore (emit e s) = entriesBefore s"
  "lastLogTimestamp (emit e s) = lastLogTimestamp s"
  "actionsTable (emit e s) = actionsTable s"
  "eventsTable (emit e s) = eventsTable s"
  "currentModal (emit e s) = currentModal s"
  "modalShown (emit e s) = modalShown s"
  by (simp_all add: emit_def)

lemma append_entries:
  "foldl (\<lambda>t log. t\<lparr>logContainer := logContainer t @ [log_div log]\<rparr>) s logs =
   s\<lparr>logContainer := logContainer s @ map log_div logs\<rparr>"
  by (induction logs arbitrary: s) simp_all

lemma updateLogs_full_eq:
  "updateLogs_full logs s = s\<lparr>logContainer := map log_div logs\<rparr>"
  by (simp add: updateLogs_full_def append_entries)

lemma prepend_entries:
  "foldl (\<lambda>t log. t\<lparr>logContainer := parseHTML P (createLogEntry P log) @ logContainer t\<rparr>)
     s logs =
   s\<lparr>logContainer :=
       concat (rev (map (\<lambda>log. parseHTML P (createLogEntry P log)) logs)) @ logContainer s\<rparr>"
  by (induction logs arbitrary: s) simp_all

lemma count_entries_append:
  "count_entries (f @ g) = count_entries f + count_entries g"
  by (induction f rule: count_entries.induct) auto





lemma updateLogs_success_nonempty:
  assumes "logs \<noteq> []"
  shows "updateLogs_success P logs s =
         s\<lparr>lastLogTimestamp := event_time (last logs),
           logContainer := keep_first (100 - entriesBefore s)
             (concat (rev (map (\<lambda>log. parseHTML P (createLogEntry P log)) logs)) @
              logContainer s)\<rparr>"
  using assms
  by (simp add: updateLogs_success_def prepend_entries remove_gt_def maxLogs_def last_conv_nth)

lemma updateLogs_success_empty: "updateLogs_success P [] s = s"
  by (simp add: updateLogs_success_def)

lemma incr_step_keeps_mark:
  "keeps_mark e \<Longrightarrow> lastLogTimestamp (incr_step P e s) = lastLogTimestamp s"
  by (cases e)
    (simp_all add: updateLogs_def ajax_def emit_frame updateLogs_success_empty
      updateLogs_error_def clearLogs_def clearLogs_error_def showAlert_def)

lemma incr_run_keeps_mark:
  "list_all keeps_mark es \<Longrightarrow> lastLogTimestamp (incr_run P es s) = lastLogTimestamp s"
  by (induction es arbitrary: s) (simp_all add: incr_step_keeps_mark)





text \<open>
  A mark that is not truthy is sent as no parameter at all. That is the mark \<open>null\<close> of the
  loaded page and of a cleared log, and it is also an \<open>event_time\<close> of \<open>0\<close> or \<open>""\<close>.
\<close>

lemma updateLogs_without_mark:
  "\<not> truthy (lastLogTimestamp s) \<Longrightarrow>
   trace (updateLogs s) = trace s @
     [Sent \<lparr>req_method = ''GET'', req_url = ''/logs'', req_query = [], req_body = None\<rparr>]"
  by (simp add: updateLogs_def ajax_def emit_frame)

text \<open>
  A response to \<open>GET /api/actions\<close> that parses as JSON without being an array settles the
  promise as fulfilled, whatever its status code. The render pass then throws after the
  actions table has been emptied, and ends in the same alert as a rejected promise.
\<close>

lemma refreshComponents_non_array:
  "actionsTable (refreshComponents_settled (Fulfilled NonArray) (Fulfilled events) s) = [] \<and>
   eventsTable (refreshComponents_settled (Fulfilled NonArray) (Fulfilled events) s) =
     eventsTable s \<and>
   alerts (refreshComponents_settled (Fulfilled NonArray) (Fulfilled events) s) =
     alerts s @ [(''danger'', ''Error refreshing components'')]"
  by (simp add: showAlert_def emit_def alerts_def)

text \<open>
  The effects of the two form handlers once the response is there. On a 2xx response to
  the create-action form: the success alert, then the two requests of
  \<open>refreshComponents\<close>, then the tracked modal hidden. On any other response to either
  form: one danger alert and nothing else. The alert is given by the message handed to
  \<open>showAlert\<close>, which is markup.
\<close>

lemma closeModal_trace: "trace (closeModal t) = trace t"
  by (cases "currentModal t"; cases "the (currentModal t)") (simp_all add: closeModal_def)

lemma closeModal_hidden: "currentModal t \<noteq> None \<Longrightarrow> \<not> modalShown (closeModal t)"
  by (cases "currentModal t"; cases "the (currentModal t)") (simp_all add: closeModal_def)

lemma createActionForm_submit_request:
  "requests (createActionForm_submit actionName s) = requests s @
     [\<lparr>req_method = ''POST'', req_url = ''/api/action/create'', req_query = [],
       req_body = Some [(''name'', JStr actionName)]\<rparr>]"
  by (simp add: createActionForm_submit_def fetch_post_def emit_def requests_def)

lemma createActionForm_settled_ok:
  assumes "ok r"
  shows "trace (createActionForm_settled actionName (Fulfilled r) s) = trace s @
        [Shown ''success'' (''Action '' @ actionName @ '' created successfully!''),
         Sent \<lparr>req_method = ''GET'', req_url = ''/api/actions'', req_query = [], req_body = None\<rparr>,
         Sent \<lparr>req_method = ''GET'', req_url = ''/api/events'', req_query = [], req_body = None\<rparr>]"
    and "currentModal s \<noteq> None \<Longrightarrow>
         \<not> modalShown (createActionForm_settled actionName (Fulfilled r) s)"
  using assms
  by (simp_all add: closeModal_trace closeModal_hidden refreshComponents_def fetch_get_def
      showAlert_def emit_frame)

lemma createActionForm_settled_not_ok:
  "\<not> ok r \<Longrightarrow> createActionForm_settled actionName (Fulfilled r) s =
     s\<lparr>trace := trace s @ [Shown ''danger'' (''Error creating action: '' @ text_body r)]\<rparr>"
  by (simp add: showAlert_def emit_def)

lemma apiForm_settled_not_ok:
  "\<not> ok r \<Longrightarrow> apiForm_settled (Fulfilled r) s =
     s\<lparr>trace := trace s @
       [Shown ''danger'' (''Error updating Binance settings: '' @ text_body r)]\<rparr>"
  by (simp add: showAlert_def emit_def)


section \<open>Incremental poller: high-water mark\<close>

text \<open>
  Claim C1, as the code has it. When the response of a poll is a non-empty list, the
  success callback leaves \<open>lastLogTimestamp\<close> equal to the \<open>event_time\<close> of the last element
  of the response. When that value is truthy, every poll issued afterwards carries it as
  the \<open>since\<close> parameter of \<open>GET /logs\<close>, as long as the events in between leave the mark
  alone (ticks, empty responses, failed polls, failed clears, changes elsewhere on the
  page).
\<close>

theorem updateLogs_high_water_mark:
  assumes "logs \<noteq> []"
  shows "lastLogTimestamp (updateLogs_success P logs s) = event_time (last logs) \<and>
    (truthy (event_time (last logs)) \<and> list_all keeps_mark es \<longrightarrow>
       trace (updateLogs (incr_run P es (updateLogs_success P logs s))) =
       trace (incr_run P es (updateLogs_success P logs s)) @
         [Sent \<lparr>req_method = ''GET'', req_url = ''/logs'',
                req_query = [(''since'', event_time (last logs))], req_body = None\<rparr>])"
proof -
  have mark: "lastLogTimestamp (updateLogs_success P logs s) = event_time (last logs)"
    using assms by (simp add: updateLogs_success_nonempty)
  have "trace (updateLogs t) =
        trace t @ [Sent \<lparr>req_method = ''GET'', req_url = ''/logs'',
                         req_query = [(''since'', lastLogTimestamp t)], req_body = None\<rparr>]"
    if "truthy (lastLogTimestamp t)" for t :: "node page"
    using that by (simp add: updateLogs_def ajax_def emit_frame)
  with mark show ?thesis
    by (simp add: incr_run_keeps_mark)
qed

theorem updateLogs_high_water_mark_witness:
  "[\<lparr>parent = ''EventX'', event_time = JStr ''2024-01-01T00:00:00Z'',
     event_data = ''fired'', event_type = None\<rparr>] \<noteq> [] \<and>
   truthy (JStr ''2024-01-01T00:00:00Z'') \<and>
   list_all keeps_mark [Tick, Success [], Tick] \<and>
   lastLogTimestamp (updateLogs_success example_platform
     [\<lparr>parent = ''EventX'', event_time = JStr ''2024-01-01T00:00:00Z'',
     event_data = ''fired'', event_type = None\<rparr>] page_load) = JStr ''2024-01-01T00:00:00Z'' \<and>
   requests (updateLogs (incr_run example_platform [Tick, Success [], Tick]
     (updateLogs_success example_platform
     [\<lparr>parent = ''EventX'', event_time = JStr ''2024-01-01T00:00:00Z'',
     event_data = ''fired'', event_type = None\<rparr>] page_load))) =
   [\<lparr>req_method = ''GET'', req_url = ''/logs'',
     req_query = [(''since'', JStr ''2024-01-01T00:00:00Z'')], req_body = None\<rparr>,
    \<lparr>req_method = ''GET'', req_url = ''/logs'',
     req_query = [(''since'', JStr ''2024-01-01T00:00:00Z'')], req_body = None\<rparr>,
    \<lparr>req_method = ''GET'', req_url = ''/logs'',
     req_query = [(''since'', JStr ''2024-01-01T00:00:00Z'')], req_body = None\<rparr>]"
  using updateLogs_high_water_mark
    [of "[\<lparr>parent = ''EventX'', event_time = JStr ''2024-01-01T00:00:00Z'',
     event_data = ''fired'', event_type = None\<rparr>]" example_platform page_load "[Tick, Success [], Tick]"]
  by (simp add: requests_def updateLogs_def ajax_def emit_def updateLogs_success_def
      remove_gt_def maxLogs_def page_load_def)

text \<open>
  Claim C1 as stated fails for a falsy \<open>event_time\<close>. A response whose last element has the
  time \<open>0\<close> sets the mark to \<open>0\<close>, which is not the unset mark \<open>null\<close>; the next poll is sent
  without any \<open>since\<close> parameter.
\<close>

theorem updateLogs_falsy_mark_counterexample:
  "[\<lparr>parent = ''EventX'', event_time = JNum 0, event_data = ''fired'', event_type = None\<rparr>] \<noteq> [] \<and>
   lastLogTimestamp (updateLogs_success example_platform [\<lparr>parent = ''EventX'', event_time = JNum 0, event_data = ''fired'', event_type = None\<rparr>] page_load) = JNum 0 \<and>
   lastLogTimestamp (updateLogs_success example_platform [\<lparr>parent = ''EventX'', event_time = JNum 0, event_data = ''fired'', event_type = None\<rparr>] page_load) \<noteq> JNull \<and>
   requests (updateLogs (updateLogs_success example_platform [\<lparr>parent = ''EventX'', event_time = JNum 0, event_data = ''fired'', event_type = None\<rparr>] page_load)) =
     [\<lparr>req_method = ''GET'', req_url = ''/logs'', req_query = [], req_body = None\<rparr>] \<and>
   requests (updateLogs (updateLogs_success example_platform [\<lparr>parent = ''EventX'', event_time = JNum 0, event_data = ''fired'', event_type = None\<rparr>] page_load)) \<noteq>
     [\<lparr>req_method = ''GET'', req_url = ''/logs'', req_query = [(''since'', JNum 0)],
       req_body = None\<rparr>]"
  by (simp add: requests_def updateLogs_def ajax_def emit_def updateLogs_success_def
      remove_gt_def maxLogs_def page_load_def)


section \<open>Bounded log list\<close>




section \<open>Clearing the log\<close>

text \<open>
  Claim C3. \<open>clearLogs()\<close> issues \<open>POST /logs/clear\<close> and touches nothing else. The rendered
  list is emptied and the high-water mark reset to null in the success callback, which
  also shows a success alert. The error callback leaves the list and the mark as they
  were and shows a danger alert.
\<close>

theorem clearLogs_contract:
  "requests (clearLogs s) = requests s @
     [\<lparr>req_method = ''POST'', req_url = ''/logs/clear'', req_query = [], req_body = None\<rparr>] \<and>
   alerts (clearLogs s) = alerts s \<and>
   logContainer (clearLogs s) = logContainer s \<and>
   lastLogTimestamp (clearLogs s) = lastLogTimestamp s \<and>
   logContainer (clearLogs_success s) = [] \<and>
   lastLogTimestamp (clearLogs_success s) = JNull \<and>
   alerts (clearLogs_success s) = alerts s @ [(''success'', ''Logs cleared successfully'')] \<and>
   logContainer (clearLogs_error f s) = logContainer s \<and>
   lastLogTimestamp (clearLogs_error f s) = lastLogTimestamp s \<and>
   alerts (clearLogs_error f s) =
     alerts s @ [(''danger'', ''Error clearing logs: '' @ errorThrown f)]"
  by (simp add: clearLogs_def clearLogs_success_def clearLogs_error_def ajax_def showAlert_def
      emit_frame requests_def alerts_def)


section \<open>Registry refresh\<close>

text \<open>
  Claim C4. When the promise for \<open>/api/actions\<close> or the one for \<open>/api/events\<close> is rejected
  (the fetch failed, or the body did not parse as JSON), \<open>refreshComponents\<close> adds the one
  alert "Error refreshing components" of type danger and changes nothing else on the
  page: both tables are as they were. This holds whatever the other promise settled as.
\<close>

theorem refreshComponents_failure_atomic:
  "refreshComponents_settled (Rejected e) b s =
     s\<lparr>trace := trace s @ [Shown ''danger'' ''Error refreshing components'']\<rparr> \<and>
   refreshComponents_settled a (Rejected e) s =
     s\<lparr>trace := trace s @ [Shown ''danger'' ''Error refreshing components'']\<rparr> \<and>
   actionsTable (refreshComponents_settled (Rejected e) b s) = actionsTable s \<and>
   eventsTable (refreshComponents_settled (Rejected e) b s) = eventsTable s \<and>
   alerts (refreshComponents_settled (Rejected e) b s) =
     alerts s @ [(''danger'', ''Error refreshing components'')] \<and>
   actionsTable (refreshComponents_settled a (Rejected e) s) = actionsTable s \<and>
   eventsTable (refreshComponents_settled a (Rejected e) s) = eventsTable s \<and>
   alerts (refreshComponents_settled a (Rejected e) s) =
     alerts s @ [(''danger'', ''Error refreshing components'')]"
proof -
  have l: "refreshComponents_settled (Rejected e) b s =
           s\<lparr>trace := trace s @ [Shown ''danger'' ''Error refreshing components'']\<rparr>"
    by (simp add: showAlert_def emit_def)
  have r: "refreshComponents_settled a (Rejected e) s =
           s\<lparr>trace := trace s @ [Shown ''danger'' ''Error refreshing components'']\<rparr>"
    by (cases a) (simp_all add: showAlert_def emit_def)
  show ?thesis
    unfolding l r by (simp add: alerts_def)
qed


section \<open>Full-refresh poller\<close>

text \<open>
  Claim C5. For a response \<open>xs\<close>, the success callback of \<open>getLogData\<close> replaces the rendered
  list, whatever it held, by the entries for the first 20 elements of the reverse of \<open>xs\<close>;
  that is the whole reverse of \<open>xs\<close> when \<open>xs\<close> has fewer than 20 elements.
\<close>

theorem getLogData_renders_newest_20:
  "logContainer (getLogData_success xs s) = map log_div (take 20 (rev xs)) \<and>
   (length xs < 20 \<longrightarrow> logContainer (getLogData_success xs s) = map log_div (rev xs))"
  by (simp add: getLogData_success_def updateLogs_full_eq)

theorem getLogData_renders_newest_20_witness:
  "length [\<lparr>parent = ''A'', event_time = JNum 1, event_data = ''first'', event_type = None\<rparr>,
           \<lparr>parent = ''B'', event_time = JNum 2, event_data = ''second'', event_type = None\<rparr>] < 20 \<and>
   logContainer (getLogData_success
     [\<lparr>parent = ''A'', event_time = JNum 1, event_data = ''first'', event_type = None\<rparr>,
      \<lparr>parent = ''B'', event_time = JNum 2, event_data = ''second'', event_type = None\<rparr>]
     (page_load\<lparr>logContainer := [log_div \<lparr>parent = ''Old'', event_time = JNum 0,
        event_data = ''stale'', event_type = None\<rparr>]\<rparr>)) =
   [\<lparr>elem_source = ''B'', elem_time = LocaleString (JNum 2), elem_level = None,
     elem_message = ''second''\<rparr>,
    \<lparr>elem_source = ''A'', elem_time = LocaleString (JNum 1), elem_level = None,
     elem_message = ''first''\<rparr>]"
  using getLogData_renders_newest_20
    [of "[\<lparr>parent = ''A'', event_time = JNum 1, event_data = ''first'', event_type = None\<rparr>,
          \<lparr>parent = ''B'', event_time = JNum 2, event_data = ''second'', event_type = None\<rparr>]"
        "page_load\<lparr>logContainer := [log_div \<lparr>parent = ''Old'', event_time = JNum 0,
           event_data = ''stale'', event_type = None\<rparr>]\<rparr>"]
  by (simp add: log_div_def)


section \<open>Failed log fetches\<close>

text \<open>
  Claim C6. The error callback of either poller writes one line to the console and does
  nothing else: no alert is shown, no request is issued, the rendered list and the
  high-water mark are as before, and the next tick of the incremental poller sends the
  request it would have sent without the failure.
\<close>

theorem log_fetch_failure_console_only:
  "getLogData_error f s = s\<lparr>trace := trace s @ [Logged ''Error fetching logs:'' (ArgXhr (xhr f))]\<rparr> \<and>
   console (getLogData_error f s) = console s @ [(''Error fetching logs:'', ArgXhr (xhr f))] \<and>
   alerts (getLogData_error f s) = alerts s \<and>
   requests (getLogData_error f s) = requests s \<and>
   logContainer (getLogData_error f s) = logContainer s \<and>
   updateLogs_error f s =
     s\<lparr>trace := trace s @ [Logged ''Error fetching logs:'' (ArgText (errorThrown f))]\<rparr> \<and>
   console (updateLogs_error f s) =
     console s @ [(''Error fetching logs:'', ArgText (errorThrown f))] \<and>
   alerts (updateLogs_error f s) = alerts s \<and>
   requests (updateLogs_error f s) = requests s \<and>
   logContainer (updateLogs_error f s) = logContainer s \<and>
   lastLogTimestamp (updateLogs_error f s) = lastLogTimestamp s \<and>
   requests (updateLogs (updateLogs_error f s)) = requests (updateLogs s) \<and>
   requests (getLogData (getLogData_error f s)) = requests (getLogData s)"
  by (simp add: getLogData_error_def updateLogs_error_def getLogData_def updateLogs_def
      ajax_def emit_def console_def alerts_def requests_def)


section \<open>Creating an action\<close>

text \<open>
  Claim C7, at a name that contains markup. The name \<open>Buy<BTC>\<close> is posted as it is, and
  on the response 200 the success alert is shown, the two requests of \<open>refreshComponents\<close>
  follow and the modal is hidden. The markup of the alert holds the name unescaped, so
  the browser reads \<open><BTC>\<close> as a tag: the text shown is "Action Buy created
  successfully!", which does not contain the name. A prose body such as
  \<open>Name <x> taken\<close> of a 409 response meets the same fate in the danger alert.
\<close>

theorem createAction_markup_name:
  \<open>ok \<lparr>status = 200, text_body = ''{}''\<rparr> \<and>
   \<not> ok \<lparr>status = 409, text_body = ''Name <x> taken''\<rparr> \<and>
   requests (createActionForm_submit ''Buy<BTC>'' (page_load :: node page)) =
     [\<lparr>req_method = ''POST'', req_url = ''/api/action/create'', req_query = [],
       req_body = Some [(''name'', JStr ''Buy<BTC>'')]\<rparr>] \<and>
   trace (createActionForm_settled ''Buy<BTC>'' (Fulfilled \<lparr>status = 200, text_body = ''{}''\<rparr>)
     (showModal ''Create New Action'' ''<form id="createActionForm">'' (page_load :: node page))) =
     [Shown ''success'' ''Action Buy<BTC> created successfully!'',
      Sent \<lparr>req_method = ''GET'', req_url = ''/api/actions'', req_query = [], req_body = None\<rparr>,
      Sent \<lparr>req_method = ''GET'', req_url = ''/api/events'', req_query = [], req_body = None\<rparr>] \<and>
   \<not> modalShown (createActionForm_settled ''Buy<BTC>''
     (Fulfilled \<lparr>status = 200, text_body = ''{}''\<rparr>)
     (showModal ''Create New Action'' ''<form id="createActionForm">'' (page_load :: node page))) \<and>
   alerts_html (createActionForm_settled ''Buy<BTC>''
     (Fulfilled \<lparr>status = 200, text_body = ''{}''\<rparr>)
     (showModal ''Create New Action'' ''<form id="createActionForm">'' (page_load :: node page))) =
     [nl @ sp 8 @ ''<div class="alert alert-success alert-dismissible fade show" role="alert">'' @
      nl @ sp 12 @ ''Action Buy<BTC> created successfully!'' @
      nl @ sp 12 @ ''<button type="button" class="btn-close" data-bs-dismiss="alert"></button>'' @
      nl @ sp 8 @ ''</div>'' @
      nl @ sp 4] \<and>
   alerts_html (createActionForm_settled ''MyAction''
     (Fulfilled \<lparr>status = 409, text_body = ''Name <x> taken''\<rparr>) (page_load :: node page)) =
     [nl @ sp 8 @ ''<div class="alert alert-danger alert-dismissible fade show" role="alert">'' @
      nl @ sp 12 @ ''Error creating action: Name <x> taken'' @
      nl @ sp 12 @ ''<button type="button" class="btn-close" data-bs-dismiss="alert"></button>'' @
      nl @ sp 8 @ ''</div>'' @
      nl @ sp 4]\<close>
  by (simp add: ok_def createActionForm_submit_def fetch_post_def refreshComponents_def
      fetch_get_def closeModal_def showAlert_def emit_def showModal_def page_load_def
      requests_def alerts_html_def alerts_def alert_html_def)


section \<open>Submitting the exchange settings\<close>

text \<open>
  Claim C8, at a body that contains markup. On the response 400 with the body
  \<open>Invalid <key> given\<close> the handler shows one alert, of type danger, and no success alert.
  The markup of the alert holds the body unescaped, so the browser reads \<open><key>\<close> as a
  tag: the text shown is "Error updating Binance settings: Invalid  given", which does
  not include the body.
\<close>

theorem apiForm_markup_body:
  \<open>\<not> ok \<lparr>status = 400, text_body = ''Invalid <key> given''\<rparr> \<and>
   alerts (apiForm_settled (Fulfilled \<lparr>status = 400, text_body = ''Invalid <key> given''\<rparr>)
     (apiForm_submit ''k'' ''s'' True (page_load :: node page))) =
     [(''danger'', ''Error updating Binance settings: Invalid <key> given'')] \<and>
   alerts_html (apiForm_settled (Fulfilled \<lparr>status = 400, text_body = ''Invalid <key> given''\<rparr>)
     (apiForm_submit ''k'' ''s'' True (page_load :: node page))) =
     [nl @ sp 8 @ ''<div class="alert alert-danger alert-dismissible fade show" role="alert">'' @
      nl @ sp 12 @ ''Error updating Binance settings: Invalid <key> given'' @
      nl @ sp 12 @ ''<button type="button" class="btn-close" data-bs-dismiss="alert"></button>'' @
      nl @ sp 8 @ ''</div>'' @
      nl @ sp 4]\<close>
  by (simp add: ok_def apiForm_submit_def fetch_post_def showAlert_def emit_def page_load_def
      alerts_html_def alerts_def alert_html_def)


section \<open>Closing the modal\<close>

text \<open>
  Claim C9. \<open>closeModal()\<close> hides the tracked modal when \<open>currentModal\<close> holds one and
  changes nothing else; when \<open>currentModal\<close> is null, as on the freshly loaded page, it
  returns without any effect.
\<close>

theorem closeModal_hides_or_noop:
  "(currentModal s \<noteq> None \<longrightarrow> closeModal s = s\<lparr>modalShown := False\<rparr>) \<and>
   (currentModal s = None \<longrightarrow> closeModal s = s) \<and>
   closeModal page_load = page_load \<and>
   closeModal (showModal title content s) = (showModal title content s)\<lparr>modalShown := False\<rparr>"
proof -
  have "closeModal t = t\<lparr>modalShown := False\<rparr>" if "currentModal t = Some m"
    for t :: "'x page" and m
    using that by (cases m) (simp add: closeModal_def)
  then show ?thesis
    by (auto simp add: closeModal_def page_load_def showModal_def)
qed

theorem closeModal_hides_or_noop_witness:
  "currentModal (showModal ''Create New Action'' ''<form>'' (page_load :: node page)) \<noteq> None \<and>
   modalShown (showModal ''Create New Action'' ''<form>'' (page_load :: node page)) \<and>
   \<not> modalShown (closeModal
     (showModal ''Create New Action'' ''<form>'' (page_load :: node page))) \<and>
   currentModal (page_load :: node page) = None \<and>
   closeModal (page_load :: node page) = page_load"
  using closeModal_hides_or_noop
      [where ?'a = node and ?'b = node,
       of "showModal ''Create New Action'' ''<form>'' page_load" "''Create New Action''"
          "''<form>''"]
    closeModal_hides_or_noop
      [where ?'a = node and ?'b = node, of page_load "''Create New Action''" "''<form>''"]
  by (simp add: showModal_def page_load_def)


section \<open>Incremental poller: empty response\<close>

text \<open>
  Claim C10. When the response of a poll is the empty list, the success callback returns
  the page as it found it; over the whole tick, request and callback, the high-water
  mark and the rendered list are what they were before the tick.
\<close>

theorem updateLogs_empty_response_frame:
  "updateLogs_success P [] s = s \<and>
   lastLogTimestamp (updateLogs_success P [] (updateLogs s)) = lastLogTimestamp s \<and>
   logContainer (updateLogs_success P [] (updateLogs s)) = logContainer s"
  by (simp add: updateLogs_success_def updateLogs_def ajax_def emit_frame)

end
